theory Spec2Isabelle
  imports Main
begin

section \<open>The OAuth endpoints of the MCP server\<close>

text \<open>
  The handlers verified here are \<^verbatim>\<open>authorize\<close> and \<^verbatim>\<open>token\<close> of
  \<^verbatim>\<open>mcp-server/src/auth/oauth.py\<close> and \<^verbatim>\<open>get_current_user\<close> of
  \<^verbatim>\<open>mcp-server/src/auth/middleware.py\<close>, as the MVP implementation plan lists them
  (Phase 2, OAuth Authentication). Time is a number of seconds
  (\<^verbatim>\<open>datetime.utcnow()\<close> and the Redis clock read the same \<open>now\<close>); the values a
  handler draws at random (the authorization code, the UUID of a new row) are arguments.
\<close>

subsection \<open>Errors, users, signed tokens\<close>

text \<open>
  \<^verbatim>\<open>HTTPException(status_code, detail)\<close> is what the handlers raise themselves;
  \<open>RequestValidationError\<close> is FastAPI's answer (422) when required parameters are
  missing, with their names; \<open>Unhandled\<close> is any other Python exception.
\<close>

datatype http_error =
    HTTPException (status_code: int) (detail: string)
  | RequestValidationError "string list"
  | Unhandled string

text \<open>A row of the \<^verbatim>\<open>users\<close> table (class \<^verbatim>\<open>User\<close>); \<open>id'\<close> is its column \<^verbatim>\<open>id\<close>.\<close>

record user =
  id' :: string
  oauth_sub :: string
  email :: "string option"
  name :: "string option"
  created_at :: int
  updated_at :: int

text \<open>The claims of an access token: the dictionary given to \<^verbatim>\<open>jwt.encode\<close>.\<close>

record claims =
  sub :: "string option"
  user_id :: "string option"
  exp :: "int option"

text \<open>
  A signed token, symbolically: its claims, the key that signed it and the algorithm
  named in its header. \<^verbatim>\<open>jwt.encode(payload, key, algorithm)\<close> builds one.
\<close>

record jwt =
  payload :: claims
  signing_key :: string
  alg :: string

definition jwt_encode :: "claims \<Rightarrow> string \<Rightarrow> string \<Rightarrow> jwt" where
  "jwt_encode p key algorithm = \<lparr>payload = p, signing_key = key, alg = algorithm\<rparr>"

record settings =
  jwt_secret :: string
  jwt_algorithm :: string

subsection \<open>The Redis store\<close>

text \<open>
  A key holds a value and the time at which it expires. \<^verbatim>\<open>setex\<close> stores with a time
  to live, \<^verbatim>\<open>get\<close> answers nothing for a missing or expired key, \<^verbatim>\<open>delete\<close> removes.
\<close>

type_synonym redis = "string \<rightharpoonup> string \<times> int"

definition setex :: "redis \<Rightarrow> string \<Rightarrow> int \<Rightarrow> string \<Rightarrow> int \<Rightarrow> redis" where
  "setex r key ttl v now = r(key \<mapsto> (v, now + ttl))"

definition redis_get :: "redis \<Rightarrow> string \<Rightarrow> int \<Rightarrow> string option" where
  "redis_get r key now =
     (case r key of
        None \<Rightarrow> None
      | Some (v, deadline) \<Rightarrow> if now < deadline then Some v else None)"

definition redis_delete :: "redis \<Rightarrow> string \<Rightarrow> redis" where
  "redis_delete r key = r(key := None)"

record state =
  redis :: redis
  db :: "user list"

subsection \<open>User resolution\<close>

text \<open>
  Modelled from the spec: \<^verbatim>\<open>get_or_create_user(db, oauth_sub)\<close> is called by
  \<^verbatim>\<open>token\<close> and is missing from the sources. The spec: an idempotent lookup that
  creates the record on first miss and returns it on all subsequent lookups for the same
  key, the key being the external subject identifier. A created row takes the UUID
  \<open>new_id\<close> and the columns' defaults.
\<close>

definition get_or_create_user :: "string \<Rightarrow> int \<Rightarrow> user list \<Rightarrow> string \<Rightarrow> user \<times> user list" where
  "get_or_create_user new_id now users s =
     (case find (\<lambda>u. oauth_sub u = s) users of
        Some u \<Rightarrow> (u, users)
      | None \<Rightarrow>
          (let u = \<lparr>id' = new_id, oauth_sub = s, email = None, name = None,
                    created_at = now, updated_at = now\<rparr>
           in (u, users @ [u])))"

subsection \<open>The authorization endpoint\<close>

text \<open>The Redis key of an authorization code: the prefix \<^verbatim>\<open>auth_code:\<close> before the code.\<close>

definition auth_code_key :: "string \<Rightarrow> string" where
  "auth_code_key code = ''auth_code:'' @ code"

datatype response = RedirectResponse (url: string)

definition authorize :: "string \<Rightarrow> int \<Rightarrow> state \<Rightarrow> string \<Rightarrow> response \<times> state" where
  "authorize auth_code now s redirect_uri =
     (RedirectResponse (redirect_uri @ ''?code='' @ auth_code),
      s\<lparr>redis := setex (redis s) (auth_code_key auth_code) 300 redirect_uri now\<rparr>)"

subsection \<open>The token endpoint\<close>

datatype json = JString string | JNumber int | JToken jwt

type_synonym body = "(string \<times> json) list"

text \<open>The dictionary \<^verbatim>\<open>token\<close> returns for the user it resolved.\<close>

definition token_body :: "settings \<Rightarrow> user \<Rightarrow> int \<Rightarrow> body" where
  "token_body cfg usr now =
     (let access_token =
            jwt_encode
              \<lparr>sub = Some (oauth_sub usr), user_id = Some (id' usr), exp = Some (now + 3600)\<rparr>
              (jwt_secret cfg) (jwt_algorithm cfg)
      in [(''access_token'', JToken access_token),
          (''token_type'', JString ''Bearer''),
          (''expires_in'', JNumber 3600)])"

text \<open>
  \<^verbatim>\<open>not stored_redirect\<close> holds for a missing key and for an empty string. Every
  \<^verbatim>\<open>raise\<close> comes before the first write, so a failed call leaves the state as it was.
\<close>

definition token ::
  "settings \<Rightarrow> string \<Rightarrow> int \<Rightarrow> state \<Rightarrow> string \<Rightarrow> string \<Rightarrow> (http_error + body) \<times> state" where
  "token cfg new_id now s code redirect_uri =
     (case redis_get (redis s) (auth_code_key code) now of
        None \<Rightarrow> (Inl (HTTPException 400 ''Invalid code''), s)
      | Some stored_redirect \<Rightarrow>
          if stored_redirect = [] then (Inl (HTTPException 400 ''Invalid code''), s)
          else if stored_redirect \<noteq> redirect_uri then (Inl (HTTPException 400 ''Invalid code''), s)
          else
            (let r' = redis_delete (redis s) (auth_code_key code);
                 (usr, db') = get_or_create_user new_id now (db s) ''test_user''
             in (Inr (token_body cfg usr now), \<lparr>redis = r', db = db'\<rparr>)))"

subsection \<open>Parameter binding\<close>

text \<open>
  FastAPI reads the handlers' \<^verbatim>\<open>str\<close> parameters from the request's parameters: one
  that is missing is a validation error naming it, and parameters the signature does not
  name are not looked at.
\<close>

type_synonym params = "string \<rightharpoonup> string"

definition authorize_endpoint ::
  "string \<Rightarrow> int \<Rightarrow> state \<Rightarrow> params \<Rightarrow> (http_error + response) \<times> state" where
  "authorize_endpoint auth_code now s q =
     (case q ''redirect_uri'' of
        None \<Rightarrow> (Inl (RequestValidationError [''redirect_uri'']), s)
      | Some redirect_uri \<Rightarrow>
          (case authorize auth_code now s redirect_uri of (rsp, s') \<Rightarrow> (Inr rsp, s')))"

definition token_endpoint ::
  "settings \<Rightarrow> string \<Rightarrow> int \<Rightarrow> state \<Rightarrow> params \<Rightarrow> (http_error + body) \<times> state" where
  "token_endpoint cfg new_id now s q =
     (case q ''code'' of
        None \<Rightarrow>
          (Inl (RequestValidationError (filter (\<lambda>k. q k = None) [''code'', ''redirect_uri''])), s)
      | Some code \<Rightarrow>
          (case q ''redirect_uri'' of
             None \<Rightarrow> (Inl (RequestValidationError [''redirect_uri'']), s)
           | Some redirect_uri \<Rightarrow> token cfg new_id now s code redirect_uri))"

subsection \<open>The authentication middleware\<close>

text \<open>\<^verbatim>\<open>str.split(sep)\<close> for a separator of one character.\<close>

fun split_on :: "char \<Rightarrow> string \<Rightarrow> string list" where
  "split_on c [] = [[]]"
| "split_on c (x # xs) =
     (if x = c then [] # split_on c xs
      else (case split_on c xs of
              [] \<Rightarrow> [[x]]
            | w # ws \<Rightarrow> (x # w) # ws))"

definition startswith :: "string \<Rightarrow> string \<Rightarrow> bool" where
  "startswith s p = (take (length p) s = p)"

text \<open>
  \<^verbatim>\<open>jwt.decode(token, key, algorithms)\<close> of PyJWT: the compact string is loaded
  (\<open>load\<close>, the library's deserialiser), the header's algorithm must be one of
  \<open>algorithms\<close>, the signature must verify under \<open>key\<close>, and only then the \<^verbatim>\<open>exp\<close>
  claim is compared with the clock. \<^verbatim>\<open>ExpiredSignatureError\<close> is caught first by the
  middleware; every other failure is an \<^verbatim>\<open>InvalidTokenError\<close>.
\<close>

datatype jwt_error = ExpiredSignatureError | InvalidTokenError

definition jwt_decode ::
  "(string \<Rightarrow> jwt option) \<Rightarrow> string \<Rightarrow> string \<Rightarrow> string list \<Rightarrow> int \<Rightarrow> jwt_error + claims" where
  "jwt_decode load tok key algorithms now =
     (case load tok of
        None \<Rightarrow> Inl InvalidTokenError
      | Some t \<Rightarrow>
          if alg t \<notin> set algorithms then Inl InvalidTokenError
          else if signing_key t \<noteq> key then Inl InvalidTokenError
          else (case exp (payload t) of
                  None \<Rightarrow> Inr (payload t)
                | Some e \<Rightarrow> if e \<le> now then Inl ExpiredSignatureError else Inr (payload t)))"

text \<open>
  \<^verbatim>\<open>scalar_one_or_none()\<close> answers the row, nothing, or raises when the query finds
  several rows. The middleware reads the table and writes nothing.
\<close>

definition get_current_user ::
  "(string \<Rightarrow> jwt option) \<Rightarrow> settings \<Rightarrow> int \<Rightarrow> user list \<Rightarrow> string \<Rightarrow> http_error + user" where
  "get_current_user load cfg now users authorization =
     (if \<not> startswith authorization ''Bearer '' then Inl (HTTPException 401 ''Invalid token'')
      else
        (case split_on CHR '' '' authorization of
           _ # tok # _ \<Rightarrow>
             (case jwt_decode load tok (jwt_secret cfg) [jwt_algorithm cfg] now of
                Inl ExpiredSignatureError \<Rightarrow> Inl (HTTPException 401 ''Token expired'')
              | Inl InvalidTokenError \<Rightarrow> Inl (HTTPException 401 ''Invalid token'')
              | Inr p \<Rightarrow>
                  (case filter (\<lambda>u. Some (id' u) = user_id p) users of
                     [] \<Rightarrow> Inl (HTTPException 401 ''User not found'')
                   | [u] \<Rightarrow> Inr u
                   | _ \<Rightarrow> Inl (Unhandled ''MultipleResultsFound'')))
         | _ \<Rightarrow> Inl (Unhandled ''IndexError'')))"

subsection \<open>Requests served one after the other\<close>

datatype request =
    AuthorizeReq string int params
  | TokenReq string int params

datatype reply =
    AuthorizeReply "http_error + response"
  | TokenReply "http_error + body"

fun handle :: "settings \<Rightarrow> state \<Rightarrow> request \<Rightarrow> reply \<times> state" where
  "handle cfg s (AuthorizeReq auth_code now q) =
     (case authorize_endpoint auth_code now s q of (r, s') \<Rightarrow> (AuthorizeReply r, s'))"
| "handle cfg s (TokenReq new_id now q) =
     (case token_endpoint cfg new_id now s q of (r, s') \<Rightarrow> (TokenReply r, s'))"

fun run :: "settings \<Rightarrow> state \<Rightarrow> request list \<Rightarrow> reply list \<times> state" where
  "run cfg s [] = ([], s)"
| "run cfg s (rq # rqs) =
     (case handle cfg s rq of
        (r, s') \<Rightarrow> (case run cfg s' rqs of (rs, s'') \<Rightarrow> (r # rs, s'')))"

text \<open>A request that stores the code value \<open>c\<close> anew.\<close>

fun issues :: "string \<Rightarrow> request \<Rightarrow> bool" where
  "issues c (AuthorizeReq auth_code now q) = (auth_code = c)"
| "issues c (TokenReq new_id now q) = False"

subsection \<open>Requests served concurrently\<close>

text \<open>
  \<^verbatim>\<open>token\<close> is a coroutine: the event loop may run another request at each
  \<^verbatim>\<open>await\<close>. A task is the point a call of \<^verbatim>\<open>token\<close> has reached: before
  \<^verbatim>\<open>await redis.get\<close>, before \<^verbatim>\<open>await redis.delete\<close>, before
  \<^verbatim>\<open>await get_or_create_user\<close>, or returned. A step runs a task up to its next
  \<^verbatim>\<open>await\<close>.
\<close>

datatype task =
    AwaitGet string string
  | AwaitDelete string
  | AwaitUser
  | Returned "http_error + body"

fun task_step :: "settings \<Rightarrow> string \<Rightarrow> int \<Rightarrow> state \<Rightarrow> task \<Rightarrow> task \<times> state" where
  "task_step cfg new_id now s (AwaitGet code redirect_uri) =
     (case redis_get (redis s) (auth_code_key code) now of
        None \<Rightarrow> (Returned (Inl (HTTPException 400 ''Invalid code'')), s)
      | Some stored_redirect \<Rightarrow>
          if stored_redirect = [] then (Returned (Inl (HTTPException 400 ''Invalid code'')), s)
          else if stored_redirect \<noteq> redirect_uri
            then (Returned (Inl (HTTPException 400 ''Invalid code'')), s)
          else (AwaitDelete code, s))"
| "task_step cfg new_id now s (AwaitDelete code) =
     (AwaitUser, s\<lparr>redis := redis_delete (redis s) (auth_code_key code)\<rparr>)"
| "task_step cfg new_id now s AwaitUser =
     (let (usr, db') = get_or_create_user new_id now (db s) ''test_user''
      in (Returned (Inr (token_body cfg usr now)), s\<lparr>db := db'\<rparr>))"
| "task_step cfg new_id now s (Returned r) = (Returned r, s)"

text \<open>
  A schedule names, step by step, the task the event loop resumes, with the UUID and the
  clock that step would read.
\<close>

fun interleave ::
  "settings \<Rightarrow> (nat \<times> string \<times> int) list \<Rightarrow> task list \<times> state \<Rightarrow> task list \<times> state" where
  "interleave cfg [] c = c"
| "interleave cfg ((i, new_id, now) # sched) (tasks, s) =
     (if i < length tasks
      then (case task_step cfg new_id now s (tasks ! i) of
              (t', s') \<Rightarrow> interleave cfg sched (tasks[i := t'], s'))
      else interleave cfg sched (tasks, s))"

fun succeeded :: "task \<Rightarrow> bool" where
  "succeeded (Returned (Inr b)) = True"
| "succeeded t = False"

text \<open>
  The code value \<open>c\<close> cannot be read from the store at or after \<open>deadline\<close>: its key
  is missing, or expires by then.
\<close>

definition dead_by :: "state \<Rightarrow> string \<Rightarrow> int \<Rightarrow> bool" where
  "dead_by s c deadline =
     (case redis s (auth_code_key c) of
        None \<Rightarrow> True
      | Some (v, d) \<Rightarrow> d \<le> deadline)"

text \<open>The row the \<^verbatim>\<open>users\<close> table holds for the subject \<^verbatim>\<open>test_user\<close> is \<open>usr\<close>.\<close>

definition resolves :: "state \<Rightarrow> user \<Rightarrow> bool" where
  "resolves s usr = (find (\<lambda>u. oauth_sub u = ''test_user'') (db s) = Some usr)"

subsection \<open>Reading a token response\<close>

text \<open>The claims of the access token in a response body, when it carries one.\<close>

definition access_claims :: "body \<Rightarrow> claims option" where
  "access_claims b =
     (case map_of b ''access_token'' of
        Some (JToken t) \<Rightarrow> Some (payload t)
      | _ \<Rightarrow> None)"

subsection \<open>What the specification asks of the authorization endpoint\<close>

text \<open>
  The specification's checks on an authorization request, in its words: the
  \<^verbatim>\<open>client_id\<close> exists and is not revoked, the \<^verbatim>\<open>redirect_uri\<close> is exactly one of the
  client's registered URIs, and a \<^verbatim>\<open>code_challenge\<close> is present. The handlers keep no
  client registry; this predicate is only what the specification is compared with.
\<close>

record client =
  client_id :: string
  redirect_uris :: "string list"
  client_revoked :: bool

definition spec_authorize_checks :: "client list \<Rightarrow> params \<Rightarrow> bool" where
  "spec_authorize_checks clients q =
     (case (q ''client_id'', q ''redirect_uri'', q ''code_challenge'') of
        (Some cid, Some uri, Some challenge) \<Rightarrow>
          (case find (\<lambda>c. client_id c = cid) clients of
             None \<Rightarrow> False
           | Some c \<Rightarrow> \<not> client_revoked c \<and> uri \<in> set (redirect_uris c) \<and> challenge \<noteq> [])
      | _ \<Rightarrow> False)"

subsection \<open>The revocation endpoint\<close>

text \<open>
  Modelled from the spec: the RefreshToken record, which is missing from the sources. The
  spec: token hash, owning client identifier, bound user identity, issued-at, expires-at,
  revoked flag, optional rotation-parent reference.
\<close>

record refresh_token =
  token_hash :: string
  owning_client :: string
  bound_user :: string
  issued_at :: int
  expires_at :: int
  revoked :: bool
  rotation_parent :: "string option"

text \<open>
  Modelled from the spec: the revocation handler (\<^verbatim>\<open>POST /revoke\<close>), which is missing
  from the sources. The spec: it accepts a refresh-token value and client credentials;
  hashes and looks up the RefreshToken; if owned by the presenting client, marks it
  revoked; revoking an already-revoked or unknown token both return success (200).
  \<open>hash\<close> is the hash the tokens are stored under and \<open>presenter\<close> the authenticated
  client.
\<close>

definition revoke ::
  "(string \<Rightarrow> string) \<Rightarrow> refresh_token list \<Rightarrow> string \<Rightarrow> string \<Rightarrow> int \<times> refresh_token list" where
  "revoke hash store presenter tok =
     (200,
      map (\<lambda>rt. if token_hash rt = hash tok \<and> owning_client rt = presenter
                then rt\<lparr>revoked := True\<rparr> else rt) store)"

subsection \<open>The token endpoint and the refresh-token records\<close>




subsection \<open>Example values\<close>

definition cfg0 :: settings where
  "cfg0 = \<lparr>jwt_secret = ''secret'', jwt_algorithm = ''HS256''\<rparr>"

definition s0 :: state where
  "s0 = \<lparr>redis = Map.empty, db = []\<rparr>"

definition cb0 :: string where
  "cb0 = ''https://app.example/cb''"

text \<open>The state after \<^verbatim>\<open>authorize\<close> has issued the code \<^verbatim>\<open>abc\<close> at time 0.\<close>

definition s_issued :: state where
  "s_issued = snd (authorize ''abc'' 0 s0 cb0)"

definition q_token :: params where
  "q_token = [''code'' \<mapsto> ''abc'', ''redirect_uri'' \<mapsto> cb0]"

definition usr0 :: user where
  "usr0 = \<lparr>id' = ''u1'', oauth_sub = ''test_user'', email = None, name = None,
            created_at = 10, updated_at = 10\<rparr>"

text \<open>A loader that knows one compact string: an access token as \<^verbatim>\<open>token\<close> signs it.\<close>

definition jwt0 :: jwt where
  "jwt0 = jwt_encode \<lparr>sub = Some ''test_user'', user_id = Some ''u1'', exp = Some 3610\<rparr>
            ''secret'' ''HS256''"

definition load0 :: "string \<Rightarrow> jwt option" where
  "load0 tok = (if tok = ''tok0'' then Some jwt0 else None)"

definition rt0 :: refresh_token where
  "rt0 = \<lparr>token_hash = ''h:r1'', owning_client = ''client1'', bound_user = ''u1'',
           issued_at = 0, expires_at = 1000, revoked = False, rotation_parent = None\<rparr>"

definition hash0 :: "string \<Rightarrow> string" where
  "hash0 tok = ''h:'' @ tok"

text \<open>Two requests that neither issue nor redeem the code \<^verbatim>\<open>abc\<close>.\<close>

definition rqs0 :: "request list" where
  "rqs0 = [TokenReq ''u2'' 15 [''code'' \<mapsto> ''other'', ''redirect_uri'' \<mapsto> cb0],
           AuthorizeReq ''xyz'' 20 [''redirect_uri'' \<mapsto> cb0]]"

text \<open>
  A second authorization, by another party and for another redirect URI, and the
  redemption of its code.
\<close>

definition rqs1 :: "request list" where
  "rqs1 = [AuthorizeReq ''xyz'' 20
             [''redirect_uri'' \<mapsto> ''https://other.example/cb'', ''username'' \<mapsto> ''bob'']]"

definition q_token1 :: params where
  "q_token1 = [''code'' \<mapsto> ''xyz'', ''redirect_uri'' \<mapsto> ''https://other.example/cb'']"

text \<open>An authorization request with a PKCE challenge, and a redemption with a verifier.\<close>

definition q_authorize :: "string \<Rightarrow> params" where
  "q_authorize challenge =
     [''client_id'' \<mapsto> ''client1'', ''redirect_uri'' \<mapsto> cb0,
      ''code_challenge'' \<mapsto> challenge, ''code_challenge_method'' \<mapsto> ''S256'']"

definition q_verifier :: "string \<Rightarrow> params" where
  "q_verifier verifier =
     [''grant_type'' \<mapsto> ''authorization_code'', ''code'' \<mapsto> ''abc'', ''redirect_uri'' \<mapsto> cb0,
      ''code_verifier'' \<mapsto> verifier]"

text \<open>
  A registry with one client, and a request in that client's name for a redirect URI it
  did not register (the registered one is a proper prefix of it), with no challenge.
\<close>

definition clients0 :: "client list" where
  "clients0 = [\<lparr>client_id = ''client1'', redirect_uris = [cb0], client_revoked = False\<rparr>]"

definition q_unregistered :: params where
  "q_unregistered =
     [''client_id'' \<mapsto> ''client1'', ''redirect_uri'' \<mapsto> cb0 @ ''.evil.example/steal'']"



text \<open>
  Two calls of \<^verbatim>\<open>token\<close> for the code \<^verbatim>\<open>abc\<close> in flight at once, and two schedules:
  one alternates between them at every \<^verbatim>\<open>await\<close>, the other runs the first call to its
  end before the second starts.
\<close>

definition tasks0 :: "task list" where
  "tasks0 = [AwaitGet ''abc'' cb0, AwaitGet ''abc'' cb0]"

definition sched_alternating :: "(nat \<times> string \<times> int) list" where
  "sched_alternating =
     [(0, ''u1'', 10), (1, ''u2'', 10), (0, ''u1'', 11), (1, ''u2'', 11),
      (0, ''u1'', 12), (1, ''u2'', 12)]"

definition sched_serial :: "(nat \<times> string \<times> int) list" where
  "sched_serial =
     [(0, ''u1'', 10), (0, ''u1'', 11), (0, ''u1'', 12), (1, ''u2'', 13),
      (1, ''u2'', 14), (1, ''u2'', 15)]"

section \<open>Properties\<close>

lemmas example_defs = cfg0_def s0_def cb0_def s_issued_def q_token_def usr0_def

lemmas middleware_defs = get_current_user_def jwt_decode_def startswith_def

lemmas eval_defs =
  token_endpoint_def token_def authorize_endpoint_def authorize_def token_body_def jwt_encode_def
  redis_get_def redis_delete_def setex_def get_or_create_user_def auth_code_key_def Let_def

subsection \<open>The handlers, case by case\<close>

lemma auth_code_key_inj [simp]: "(auth_code_key a = auth_code_key c) = (a = c)"
  by (simp add: auth_code_key_def)

lemma token_cases:
  "token cfg new_id now s code redirect_uri =
     (if redirect_uri \<noteq> [] \<and> redis_get (redis s) (auth_code_key code) now = Some redirect_uri
      then (Inr (token_body cfg (fst (get_or_create_user new_id now (db s) ''test_user'')) now),
            \<lparr>redis = redis_delete (redis s) (auth_code_key code),
             db = snd (get_or_create_user new_id now (db s) ''test_user'')\<rparr>)
      else (Inl (HTTPException 400 ''Invalid code''), s))"
  by (auto simp: token_def Let_def split: option.splits prod.splits)

lemma token_endpoint_cases:
  "token_endpoint cfg new_id now s q =
     (case q ''code'' of
        None \<Rightarrow>
          (Inl (RequestValidationError (filter (\<lambda>k. q k = None) [''code'', ''redirect_uri''])), s)
      | Some c \<Rightarrow>
         (case q ''redirect_uri'' of
            None \<Rightarrow> (Inl (RequestValidationError [''redirect_uri'']), s)
          | Some r \<Rightarrow>
              if r \<noteq> [] \<and> redis_get (redis s) (auth_code_key c) now = Some r
              then (Inr (token_body cfg (fst (get_or_create_user new_id now (db s) ''test_user'')) now),
                    \<lparr>redis = redis_delete (redis s) (auth_code_key c),
                     db = snd (get_or_create_user new_id now (db s) ''test_user'')\<rparr>)
              else (Inl (HTTPException 400 ''Invalid code''), s)))"
  by (simp add: token_endpoint_def token_cases split: option.splits)

lemma snd_handle_authorize:
  "snd (handle cfg s (AuthorizeReq a now q)) = snd (authorize_endpoint a now s q)"
  by (simp split: prod.splits)

lemma snd_handle_token:
  "snd (handle cfg s (TokenReq u now q)) = snd (token_endpoint cfg u now s q)"
  by (simp split: prod.splits)

lemma snd_run_Cons:
  "snd (run cfg s (rq # rqs)) = snd (run cfg (snd (handle cfg s rq)) rqs)"
  by (simp split: prod.splits)

subsection \<open>A consumed or expired code stays unreadable\<close>

lemma dead_by_get:
  "dead_by s c deadline \<Longrightarrow> deadline \<le> now \<Longrightarrow> redis_get (redis s) (auth_code_key c) now = None"
  by (auto simp: dead_by_def redis_get_def split: option.splits)

lemma token_dead:
  "dead_by s c deadline \<Longrightarrow> deadline \<le> now \<Longrightarrow>
     token cfg new_id now s c r = (Inl (HTTPException 400 ''Invalid code''), s)"
  by (simp add: token_cases dead_by_get)

lemma token_success_dead:
  "\<not> isl (fst (token cfg new_id now s c r)) \<Longrightarrow>
     dead_by (snd (token cfg new_id now s c r)) c deadline"
  by (auto simp: token_cases dead_by_def redis_delete_def split: if_splits)

lemma token_keeps_dead:
  "dead_by s c deadline \<Longrightarrow> dead_by (snd (token cfg new_id now s c' r)) c deadline"
  by (auto simp: token_cases dead_by_def redis_delete_def split: if_splits)

lemma authorize_dead: "dead_by (snd (authorize c now s r)) c (now + 300)"
  by (simp add: authorize_def dead_by_def setex_def)

lemma authorize_keeps_dead:
  "a \<noteq> c \<Longrightarrow> dead_by s c deadline \<Longrightarrow> dead_by (snd (authorize a now s r)) c deadline"
  by (simp add: authorize_def dead_by_def setex_def)

lemma token_endpoint_keeps_dead:
  "dead_by s c deadline \<Longrightarrow> dead_by (snd (token_endpoint cfg u now s q)) c deadline"
  by (simp add: token_endpoint_def token_keeps_dead split: option.splits)

lemma authorize_endpoint_keeps_dead:
  "a \<noteq> c \<Longrightarrow> dead_by s c deadline \<Longrightarrow> dead_by (snd (authorize_endpoint a now s q)) c deadline"
  by (simp add: authorize_endpoint_def split_beta authorize_keeps_dead split: option.splits)

lemma handle_keeps_dead:
  "\<not> issues c rq \<Longrightarrow> dead_by s c deadline \<Longrightarrow> dead_by (snd (handle cfg s rq)) c deadline"
  by (cases rq)
     (simp_all add: snd_handle_authorize snd_handle_token authorize_endpoint_keeps_dead
        token_endpoint_keeps_dead del: handle.simps)

lemma run_keeps_dead:
  "list_all (\<lambda>rq. \<not> issues c rq) rqs \<Longrightarrow> dead_by s c deadline \<Longrightarrow>
     dead_by (snd (run cfg s rqs)) c deadline"
proof (induction rqs arbitrary: s)
  case Nil
  then show ?case by simp
next
  case (Cons rq rqs)
  have "dead_by (snd (handle cfg s rq)) c deadline"
    using Cons.prems by (simp add: handle_keeps_dead)
  then have "dead_by (snd (run cfg (snd (handle cfg s rq)) rqs)) c deadline"
    using Cons.IH Cons.prems by simp
  then show ?case by (simp only: snd_run_Cons)
qed

text \<open>
  Claim C1, as the handlers have it. Requests are served one after the other. Once a
  redemption of the code \<open>c\<close> has succeeded, and whatever requests follow that do not
  store the value \<open>c\<close> anew, a later redemption of \<open>c\<close> is refused with
  \<^verbatim>\<open>HTTPException(400, "Invalid code")\<close>; and so is a redemption 300 seconds or more
  after \<^verbatim>\<open>authorize\<close> stored \<open>c\<close>.
\<close>

theorem redeemed_or_expired_code_is_refused:
  assumes "list_all (\<lambda>rq. \<not> issues c rq) rqs"
    and "q' ''code'' = Some c"
    and "q' ''redirect_uri'' = Some r'"
  shows "(q ''code'' = Some c \<and> \<not> isl (fst (token_endpoint cfg u t s q)) \<longrightarrow>
            fst (token_endpoint cfg u' t' (snd (run cfg (snd (token_endpoint cfg u t s q)) rqs)) q')
              = Inl (HTTPException 400 ''Invalid code''))
       \<and> (\<not> isl (fst (authorize_endpoint c t s qa)) \<and> t + 300 \<le> t' \<longrightarrow>
            fst (token_endpoint cfg u' t' (snd (run cfg (snd (authorize_endpoint c t s qa)) rqs)) q')
              = Inl (HTTPException 400 ''Invalid code''))"
proof (intro conjI impI)
  assume a: "q ''code'' = Some c \<and> \<not> isl (fst (token_endpoint cfg u t s q))"
  then obtain r where r: "q ''redirect_uri'' = Some r"
    by (cases "q ''redirect_uri''") (auto simp: token_endpoint_def)
  have te: "token_endpoint cfg u t s q = token cfg u t s c r"
    using a r by (simp add: token_endpoint_def)
  have "\<not> isl (fst (token cfg u t s c r))"
    using a te by simp
  then have "dead_by (snd (token_endpoint cfg u t s q)) c t'"
    unfolding te by (rule token_success_dead)
  then have "dead_by (snd (run cfg (snd (token_endpoint cfg u t s q)) rqs)) c t'"
    using assms(1) by (rule run_keeps_dead [rotated])
  then show "fst (token_endpoint cfg u' t' (snd (run cfg (snd (token_endpoint cfg u t s q)) rqs)) q')
              = Inl (HTTPException 400 ''Invalid code'')"
    using assms(2,3) by (simp add: token_endpoint_def token_dead)
next
  assume a: "\<not> isl (fst (authorize_endpoint c t s qa)) \<and> t + 300 \<le> t'"
  then obtain r where r: "qa ''redirect_uri'' = Some r"
    by (cases "qa ''redirect_uri''") (auto simp: authorize_endpoint_def)
  have "dead_by (snd (authorize_endpoint c t s qa)) c (t + 300)"
    using r authorize_dead [of c t s r] by (simp add: authorize_endpoint_def split_beta)
  then have "dead_by (snd (run cfg (snd (authorize_endpoint c t s qa)) rqs)) c (t + 300)"
    using assms(1) by (rule run_keeps_dead [rotated])
  then show "fst (token_endpoint cfg u' t' (snd (run cfg (snd (authorize_endpoint c t s qa)) rqs)) q')
              = Inl (HTTPException 400 ''Invalid code'')"
    using assms(2,3) a by (simp add: token_endpoint_def token_dead)
qed

theorem redeemed_or_expired_code_is_refused_witness:
  "list_all (\<lambda>rq. \<not> issues ''abc'' rq) rqs0
   \<and> q_token ''code'' = Some ''abc''
   \<and> q_token ''redirect_uri'' = Some cb0
   \<and> \<not> isl (fst (token_endpoint cfg0 ''u1'' 10 s_issued q_token))
   \<and> fst (token_endpoint cfg0 ''u3'' 30
            (snd (run cfg0 (snd (token_endpoint cfg0 ''u1'' 10 s_issued q_token)) rqs0)) q_token)
       = Inl (HTTPException 400 ''Invalid code'')
   \<and> \<not> isl (fst (authorize_endpoint ''abc'' 0 s0 [''redirect_uri'' \<mapsto> cb0]))
   \<and> (0::int) + 300 \<le> 300
   \<and> fst (token_endpoint cfg0 ''u3'' 300
            (snd (run cfg0 (snd (authorize_endpoint ''abc'' 0 s0 [''redirect_uri'' \<mapsto> cb0])) rqs0))
            q_token)
       = Inl (HTTPException 400 ''Invalid code'')"
  using redeemed_or_expired_code_is_refused
      [where c = "''abc''" and rqs = rqs0 and q' = q_token and r' = cb0 and q = q_token
        and cfg = cfg0 and u = "''u1''" and t = 10 and s = s_issued and u' = "''u3''" and t' = 30]
    redeemed_or_expired_code_is_refused
      [where c = "''abc''" and rqs = rqs0 and q' = q_token and r' = cb0
        and cfg = cfg0 and t = 0 and s = s0 and u' = "''u3''" and t' = 300
        and qa = "[''redirect_uri'' \<mapsto> cb0]"]
  by (simp add: example_defs rqs0_def eval_defs)

text \<open>
  The refusal of a second redemption is \<^verbatim>\<open>HTTPException(400, "Invalid code")\<close>: the
  handler has no \<^verbatim>\<open>invalid_grant\<close> error.
\<close>

theorem second_redemption_is_not_invalid_grant:
  "fst (token_endpoint cfg0 ''u3'' 30 (snd (token_endpoint cfg0 ''u1'' 10 s_issued q_token)) q_token)
     = Inl (HTTPException 400 ''Invalid code'')
   \<and> detail (HTTPException 400 ''Invalid code'') \<noteq> ''invalid_grant''"
  by (simp add: example_defs eval_defs)

subsection \<open>The response of a successful exchange\<close>

lemma token_endpoint_success_body:
  "fst (token_endpoint cfg u t s q) = Inr b \<Longrightarrow>
     b = token_body cfg (fst (get_or_create_user u t (db s) ''test_user'')) t"
  by (auto simp: token_endpoint_cases split: option.splits if_splits)

text \<open>
  Claim C8, as the handler has it: the body of every successful token exchange has
  exactly three fields, \<^verbatim>\<open>access_token\<close>, \<^verbatim>\<open>token_type\<close> (\<^verbatim>\<open>Bearer\<close>) and
  \<^verbatim>\<open>expires_in\<close> (3600); it has no \<^verbatim>\<open>refresh_token\<close>.
\<close>

theorem token_response_fields:
  assumes "fst (token_endpoint cfg u t s q) = Inr b"
  shows "map fst b = [''access_token'', ''token_type'', ''expires_in'']
       \<and> map_of b ''refresh_token'' = None
       \<and> map_of b ''token_type'' = Some (JString ''Bearer'')
       \<and> map_of b ''expires_in'' = Some (JNumber 3600)"
  using token_endpoint_success_body [OF assms] by (simp add: token_body_def)

theorem token_response_fields_witness:
  "fst (token_endpoint cfg0 ''u1'' 10 s_issued q_token) = Inr (token_body cfg0 usr0 10)
   \<and> map fst (token_body cfg0 usr0 10) = [''access_token'', ''token_type'', ''expires_in'']
   \<and> map_of (token_body cfg0 usr0 10) ''refresh_token'' = None
   \<and> map_of (token_body cfg0 usr0 10) ''token_type'' = Some (JString ''Bearer'')
   \<and> map_of (token_body cfg0 usr0 10) ''expires_in'' = Some (JNumber 3600)"
proof -
  have h: "fst (token_endpoint cfg0 ''u1'' 10 s_issued q_token) = Inr (token_body cfg0 usr0 10)"
    by (simp add: example_defs eval_defs)
  show ?thesis
    using h token_response_fields [OF h] by simp
qed

text \<open>A successful exchange whose body has no \<^verbatim>\<open>refresh_token\<close> field.\<close>

theorem token_response_lacks_refresh_token:
  "fst (token_endpoint cfg0 ''u1'' 10 s_issued q_token) = Inr (token_body cfg0 usr0 10)
   \<and> ''refresh_token'' \<notin> set (map fst (token_body cfg0 usr0 10))"
  by (simp add: example_defs eval_defs)

subsection \<open>The user of every exchange\<close>

lemma get_or_create_user_sub: "oauth_sub (fst (get_or_create_user new_id now users s)) = s"
  by (auto simp: get_or_create_user_def Let_def find_Some_iff split: option.splits)

lemma get_or_create_user_found:
  "find (\<lambda>u. oauth_sub u = s) users = Some u \<Longrightarrow>
     get_or_create_user new_id now users s = (u, users)"
  by (simp add: get_or_create_user_def)

lemma find_append_new: "find P xs = None \<Longrightarrow> P x \<Longrightarrow> find P (xs @ [x]) = Some x"
  by (induction xs) (auto split: if_splits)

lemma get_or_create_user_stored:
  "find (\<lambda>u. oauth_sub u = s) (snd (get_or_create_user new_id now users s))
     = Some (fst (get_or_create_user new_id now users s))"
  by (auto simp: get_or_create_user_def Let_def find_append_new split: option.splits)

lemma token_endpoint_success_resolves:
  "\<not> isl (fst (token_endpoint cfg u t s q)) \<Longrightarrow>
     resolves (snd (token_endpoint cfg u t s q)) (fst (get_or_create_user u t (db s) ''test_user''))"
  by (auto simp: token_endpoint_cases resolves_def get_or_create_user_stored
        split: option.splits if_splits)

lemma token_endpoint_keeps_resolves:
  "resolves s usr \<Longrightarrow> resolves (snd (token_endpoint cfg u t s q)) usr"
  by (auto simp: token_endpoint_cases resolves_def get_or_create_user_found split: option.splits)

lemma authorize_endpoint_keeps_resolves:
  "resolves s usr \<Longrightarrow> resolves (snd (authorize_endpoint a t s q)) usr"
  by (simp add: authorize_endpoint_def authorize_def resolves_def split: option.splits)

lemma handle_keeps_resolves: "resolves s usr \<Longrightarrow> resolves (snd (handle cfg s rq)) usr"
  by (cases rq)
     (simp_all add: snd_handle_authorize snd_handle_token authorize_endpoint_keeps_resolves
        token_endpoint_keeps_resolves del: handle.simps)

lemma run_keeps_resolves: "resolves s usr \<Longrightarrow> resolves (snd (run cfg s rqs)) usr"
proof (induction rqs arbitrary: s)
  case Nil
  then show ?case by simp
next
  case (Cons rq rqs)
  from Cons.prems have "resolves (snd (handle cfg s rq)) usr"
    by (rule handle_keeps_resolves)
  then have "resolves (snd (run cfg (snd (handle cfg s rq)) rqs)) usr"
    by (rule Cons.IH)
  then show ?case by (simp only: snd_run_Cons)
qed

lemma access_claims_token_body:
  "access_claims (token_body cfg usr now)
     = Some \<lparr>sub = Some (oauth_sub usr), user_id = Some (id' usr), exp = Some (now + 3600)\<rparr>"
  by (simp add: access_claims_def token_body_def jwt_encode_def)

text \<open>
  Claim C10: the access token of every successful exchange has the subject
  \<^verbatim>\<open>test_user\<close>, whatever code is redeemed and whoever asked for it; its
  \<^verbatim>\<open>user_id\<close> is the id of the row the table holds for \<^verbatim>\<open>test_user\<close>, and any later
  successful exchange, after any requests in between, carries the same \<^verbatim>\<open>user_id\<close>.
\<close>

theorem every_exchange_binds_test_user:
  assumes "fst (token_endpoint cfg u1 t1 s q1) = Inr b1"
    and "fst (token_endpoint cfg u2 t2
                (snd (run cfg (snd (token_endpoint cfg u1 t1 s q1)) rqs)) q2) = Inr b2"
  shows "map_option sub (access_claims b1) = Some (Some ''test_user'')
       \<and> map_option sub (access_claims b2) = Some (Some ''test_user'')
       \<and> map_option user_id (access_claims b1) = map_option user_id (access_claims b2)
       \<and> map_option user_id (access_claims b1)
           = map_option (\<lambda>usr. Some (id' usr))
               (find (\<lambda>usr. oauth_sub usr = ''test_user'')
                  (db (snd (token_endpoint cfg u1 t1 s q1))))"
proof -
  let ?usr = "fst (get_or_create_user u1 t1 (db s) ''test_user'')"
  let ?s1 = "snd (token_endpoint cfg u1 t1 s q1)"
  let ?s2 = "snd (run cfg ?s1 rqs)"
  have b1: "b1 = token_body cfg ?usr t1"
    using assms(1) by (rule token_endpoint_success_body)
  have "\<not> isl (fst (token_endpoint cfg u1 t1 s q1))"
    using assms(1) by simp
  then have r1: "resolves ?s1 ?usr"
    by (rule token_endpoint_success_resolves)
  then have "resolves ?s2 ?usr"
    by (rule run_keeps_resolves)
  then have "get_or_create_user u2 t2 (db ?s2) ''test_user'' = (?usr, db ?s2)"
    by (simp add: resolves_def get_or_create_user_found)
  moreover have "b2 = token_body cfg (fst (get_or_create_user u2 t2 (db ?s2) ''test_user'')) t2"
    using assms(2) by (rule token_endpoint_success_body)
  ultimately have b2: "b2 = token_body cfg ?usr t2"
    by simp
  show ?thesis
    using r1 by (simp add: b1 b2 access_claims_token_body get_or_create_user_sub resolves_def)
qed

theorem every_exchange_binds_test_user_witness:
  "fst (token_endpoint cfg0 ''u1'' 10 s_issued q_token) = Inr (token_body cfg0 usr0 10)
   \<and> fst (token_endpoint cfg0 ''u2'' 40
            (snd (run cfg0 (snd (token_endpoint cfg0 ''u1'' 10 s_issued q_token)) rqs1)) q_token1)
       = Inr (token_body cfg0 usr0 40)
   \<and> map_option sub (access_claims (token_body cfg0 usr0 10)) = Some (Some ''test_user'')
   \<and> map_option sub (access_claims (token_body cfg0 usr0 40)) = Some (Some ''test_user'')
   \<and> map_option user_id (access_claims (token_body cfg0 usr0 10)) = Some (Some ''u1'')
   \<and> map_option user_id (access_claims (token_body cfg0 usr0 40)) = Some (Some ''u1'')"
proof -
  have h1: "fst (token_endpoint cfg0 ''u1'' 10 s_issued q_token) = Inr (token_body cfg0 usr0 10)"
    by (simp add: example_defs eval_defs)
  have h2: "fst (token_endpoint cfg0 ''u2'' 40
              (snd (run cfg0 (snd (token_endpoint cfg0 ''u1'' 10 s_issued q_token)) rqs1)) q_token1)
            = Inr (token_body cfg0 usr0 40)"
    by (simp add: example_defs rqs1_def q_token1_def eval_defs)
  show ?thesis
    using h1 h2 every_exchange_binds_test_user [OF h1 h2]
    by (simp add: access_claims_token_body usr0_def)
qed

subsection \<open>Parameters the handlers do not read\<close>

lemma token_endpoint_ignores:
  "k \<noteq> ''code'' \<Longrightarrow> k \<noteq> ''redirect_uri'' \<Longrightarrow>
     token_endpoint cfg u t s (q(k := v)) = token_endpoint cfg u t s q"
  by (simp add: token_endpoint_def cong: option.case_cong)

lemma authorize_endpoint_ignores:
  "k \<noteq> ''redirect_uri'' \<Longrightarrow>
     authorize_endpoint c t s (q(k := v)) = authorize_endpoint c t s q"
  by (simp add: authorize_endpoint_def)

text \<open>
  Claim C3, as the handlers have it: no PKCE proof is verified. The outcome of a token
  exchange is the same whatever \<^verbatim>\<open>code_verifier\<close> the request carries (or none), and
  \<^verbatim>\<open>authorize\<close> does the same whatever \<^verbatim>\<open>code_challenge\<close> it is sent. The exchange
  succeeds exactly when the code is stored, unexpired, and stored with the non-empty
  \<^verbatim>\<open>redirect_uri\<close> of the request; otherwise it raises
  \<^verbatim>\<open>HTTPException(400, "Invalid code")\<close>, issues no token and leaves the state as it was.
\<close>

theorem token_exchange_ignores_pkce:
  "token_endpoint cfg u t s (q(''code_verifier'' := v)) = token_endpoint cfg u t s q
   \<and> authorize_endpoint c t s (qa(''code_challenge'' := ch, ''code_challenge_method'' := m))
       = authorize_endpoint c t s qa
   \<and> token cfg u t s code r =
       (if r \<noteq> [] \<and> redis_get (redis s) (auth_code_key code) t = Some r
        then (Inr (token_body cfg (fst (get_or_create_user u t (db s) ''test_user'')) t),
              \<lparr>redis = redis_delete (redis s) (auth_code_key code),
               db = snd (get_or_create_user u t (db s) ''test_user'')\<rparr>)
        else (Inl (HTTPException 400 ''Invalid code''), s))"
  by (simp add: token_endpoint_ignores authorize_endpoint_ignores token_cases)

text \<open>
  One verifier redeems a code issued for the challenge \<^verbatim>\<open>challenge-1\<close> and a code issued
  for the challenge \<^verbatim>\<open>challenge-2\<close>: whatever the transform, it maps the verifier to at
  most one of the two, so a mismatched pair is redeemed.
\<close>

theorem mismatched_verifier_redeems:
  "\<not> isl (fst (token_endpoint cfg0 ''u1'' 10
               (snd (authorize_endpoint ''abc'' 0 s0 (q_authorize ''challenge-1'')))
               (q_verifier ''verifier'')))
   \<and> \<not> isl (fst (token_endpoint cfg0 ''u1'' 10
               (snd (authorize_endpoint ''abc'' 0 s0 (q_authorize ''challenge-2'')))
               (q_verifier ''verifier'')))
   \<and> ''challenge-1'' \<noteq> ''challenge-2''"
  by (simp add: example_defs q_authorize_def q_verifier_def eval_defs)

text \<open>
  Claim C4, as the handler has it: \<^verbatim>\<open>authorize\<close> reads \<^verbatim>\<open>redirect_uri\<close> only. It does
  the same whatever \<^verbatim>\<open>client_id\<close> and \<^verbatim>\<open>code_challenge\<close> the request carries (or
  none); for every request with a \<^verbatim>\<open>redirect_uri\<close> it stores the code with that URI for
  300 seconds and redirects to the URI with the code; only a request without a
  \<^verbatim>\<open>redirect_uri\<close> is refused, by the framework.
\<close>

theorem authorize_issues_code_for_any_redirect:
  "authorize_endpoint c t s
       (q(''client_id'' := cid, ''code_challenge'' := ch, ''code_challenge_method'' := m))
     = authorize_endpoint c t s q
   \<and> (case q ''redirect_uri'' of
         None \<Rightarrow> authorize_endpoint c t s q = (Inl (RequestValidationError [''redirect_uri'']), s)
       | Some uri \<Rightarrow>
           fst (authorize_endpoint c t s q) = Inr (RedirectResponse (uri @ ''?code='' @ c))
           \<and> redis (snd (authorize_endpoint c t s q)) (auth_code_key c) = Some (uri, t + 300))"
  by (simp add: authorize_endpoint_ignores)
     (simp add: authorize_endpoint_def authorize_def setex_def split: option.splits)

text \<open>
  A request for a redirect URI its client did not register, with no
  \<^verbatim>\<open>code_challenge\<close>, fails the specification's checks, and is answered with a redirect
  to that URI carrying a code, which is stored and can be redeemed there.
\<close>

theorem unregistered_redirect_gets_code:
  "\<not> spec_authorize_checks clients0 q_unregistered
   \<and> fst (authorize_endpoint ''abc'' 0 s0 q_unregistered)
       = Inr (RedirectResponse ''https://app.example/cb.evil.example/steal?code=abc'')
   \<and> \<not> isl (fst (token_endpoint cfg0 ''u1'' 10
                   (snd (authorize_endpoint ''abc'' 0 s0 q_unregistered))
                   [''code'' \<mapsto> ''abc'',
                    ''redirect_uri'' \<mapsto> ''https://app.example/cb.evil.example/steal'']))"
  by (simp add: example_defs clients0_def q_unregistered_def eval_defs spec_authorize_checks_def)



subsection \<open>Concurrent redemptions\<close>

lemma task_step_get:
  "task_step cfg u t s (AwaitGet c r) =
     (if r \<noteq> [] \<and> redis_get (redis s) (auth_code_key c) t = Some r
      then (AwaitDelete c, s)
      else (Returned (Inl (HTTPException 400 ''Invalid code'')), s))"
  by (auto split: option.splits)

text \<open>A call that no other call interrupts does what \<^verbatim>\<open>token\<close> does.\<close>

lemma uninterrupted_task_is_token:
  "interleave cfg [(0, u, t), (0, u, t), (0, u, t)] ([AwaitGet c r], s)
     = ([Returned (fst (token cfg u t s c r))], snd (token cfg u t s c r))"
  by (auto simp: task_step_get token_cases split_beta simp del: task_step.simps(1))

lemma serial_redemptions_one_success:
  "map succeeded (fst (interleave cfg0 sched_serial (tasks0, s_issued))) = [True, False]"
  by (simp add: example_defs tasks0_def sched_serial_def eval_defs split_beta)

text \<open>
  Claim C2 fails on the handler: the check (\<^verbatim>\<open>await redis.get\<close>) and the consumption
  (\<^verbatim>\<open>await redis.delete\<close>) are two steps, and when two calls for the same code both
  pass the check before either deletes the key, both succeed.
\<close>

theorem interleaved_redemptions_both_succeed:
  "map succeeded (fst (interleave cfg0 sched_alternating (tasks0, s_issued))) = [True, True]"
  by (simp add: example_defs tasks0_def sched_alternating_def eval_defs split_beta)

subsection \<open>The middleware\<close>

lemma split_on_head: "\<exists>ws. split_on c xs = takeWhile (\<lambda>x. x \<noteq> c) xs # ws"
  by (induction xs) (auto split: list.splits)

lemma split_on_bearer:
  assumes "startswith authorization ''Bearer ''"
  shows "\<exists>rest. split_on CHR '' '' authorization
           = ''Bearer'' # takeWhile (\<lambda>x. x \<noteq> CHR '' '') (drop 7 authorization) # rest"
proof -
  have l: "length ''Bearer '' = 7"
    by simp
  have "take 7 authorization = ''Bearer ''"
    using assms unfolding startswith_def l .
  then have a: "authorization = ''Bearer '' @ drop 7 authorization"
    by (metis append_take_drop_id)
  obtain ws where "split_on CHR '' '' (drop 7 authorization)
      = takeWhile (\<lambda>x. x \<noteq> CHR '' '') (drop 7 authorization) # ws"
    using split_on_head by blast
  then have "split_on CHR '' '' (''Bearer '' @ drop 7 authorization)
      = ''Bearer'' # takeWhile (\<lambda>x. x \<noteq> CHR '' '') (drop 7 authorization) # ws"
    by simp
  then show ?thesis using a by metis
qed

text \<open>After the prefix check, the token is the header's text up to the next space.\<close>

lemma get_current_user_bearer:
  assumes "startswith authorization ''Bearer ''"
  shows "get_current_user load cfg now users authorization =
    (case jwt_decode load (takeWhile (\<lambda>x. x \<noteq> CHR '' '') (drop 7 authorization))
            (jwt_secret cfg) [jwt_algorithm cfg] now of
       Inl ExpiredSignatureError \<Rightarrow> Inl (HTTPException 401 ''Token expired'')
     | Inl InvalidTokenError \<Rightarrow> Inl (HTTPException 401 ''Invalid token'')
     | Inr p \<Rightarrow>
         (case filter (\<lambda>u. Some (id' u) = user_id p) users of
            [] \<Rightarrow> Inl (HTTPException 401 ''User not found'')
          | [u] \<Rightarrow> Inr u
          | _ \<Rightarrow> Inl (Unhandled ''MultipleResultsFound'')))"
proof -
  obtain rest where "split_on CHR '' '' authorization
      = ''Bearer'' # takeWhile (\<lambda>x. x \<noteq> CHR '' '') (drop 7 authorization) # rest"
    using split_on_bearer [OF assms] by blast
  then show ?thesis
    using assms by (simp add: get_current_user_def)
qed

lemma bearer_token:
  "CHR '' '' \<notin> set tok \<Longrightarrow>
     startswith (''Bearer '' @ tok) ''Bearer ''
     \<and> takeWhile (\<lambda>x. x \<noteq> CHR '' '') (drop 7 (''Bearer '' @ tok)) = tok"
  by (auto simp: startswith_def)

lemma jwt_decode_cases:
  "jwt_decode load tok key [a] now =
     (case load tok of
        None \<Rightarrow> Inl InvalidTokenError
      | Some t \<Rightarrow>
          if alg t = a \<and> signing_key t = key
          then (case exp (payload t) of
                  None \<Rightarrow> Inr (payload t)
                | Some e \<Rightarrow> if e \<le> now then Inl ExpiredSignatureError else Inr (payload t))
          else Inl InvalidTokenError)"
  by (simp add: jwt_decode_def split: option.splits)

lemma expired_reason_only_for_expired:
  assumes "get_current_user load cfg now users authorization
             = Inl (HTTPException 401 ''Token expired'')"
  shows "startswith authorization ''Bearer ''
       \<and> (\<exists>t e. load (takeWhile (\<lambda>x. x \<noteq> CHR '' '') (drop 7 authorization)) = Some t
             \<and> alg t = jwt_algorithm cfg \<and> signing_key t = jwt_secret cfg
             \<and> exp (payload t) = Some e \<and> e \<le> now)"
proof -
  have b: "startswith authorization ''Bearer ''"
    using assms by (auto simp: get_current_user_def split: if_splits)
  show ?thesis
    using assms b unfolding get_current_user_bearer [OF b] jwt_decode_cases
    by (auto split: option.splits if_splits list.splits sum.splits jwt_error.splits)
qed

text \<open>
  Claim C6: a bearer token whose \<^verbatim>\<open>exp\<close> has passed is always rejected. When its
  signature is valid the reason is \<^verbatim>\<open>Token expired\<close>, otherwise
  \<^verbatim>\<open>Invalid token\<close>; and no header is ever rejected with \<^verbatim>\<open>Token expired\<close> unless it
  carries a validly signed token whose \<^verbatim>\<open>exp\<close> has passed, so the reason tells an
  expired token from every other rejected one.
\<close>

theorem expired_token_rejected_with_own_reason:
  "(authorization = ''Bearer '' @ tok \<and> CHR '' '' \<notin> set tok \<and> load tok = Some t
      \<and> exp (payload t) = Some e \<and> e \<le> now \<longrightarrow>
      get_current_user load cfg now users authorization =
        (if alg t = jwt_algorithm cfg \<and> signing_key t = jwt_secret cfg
         then Inl (HTTPException 401 ''Token expired'')
         else Inl (HTTPException 401 ''Invalid token'')))
   \<and> (get_current_user load cfg now users authorization
         = Inl (HTTPException 401 ''Token expired'') \<longrightarrow>
        startswith authorization ''Bearer ''
        \<and> (\<exists>t e. load (takeWhile (\<lambda>x. x \<noteq> CHR '' '') (drop 7 authorization)) = Some t
              \<and> alg t = jwt_algorithm cfg \<and> signing_key t = jwt_secret cfg
              \<and> exp (payload t) = Some e \<and> e \<le> now))"
proof (rule conjI; rule impI)
  assume a: "authorization = ''Bearer '' @ tok \<and> CHR '' '' \<notin> set tok \<and> load tok = Some t
      \<and> exp (payload t) = Some e \<and> e \<le> now"
  then have b: "startswith authorization ''Bearer ''"
    and tk: "takeWhile (\<lambda>x. x \<noteq> CHR '' '') (drop 7 authorization) = tok"
    using bearer_token [of tok] by simp_all
  show "get_current_user load cfg now users authorization =
        (if alg t = jwt_algorithm cfg \<and> signing_key t = jwt_secret cfg
         then Inl (HTTPException 401 ''Token expired'')
         else Inl (HTTPException 401 ''Invalid token''))"
    unfolding get_current_user_bearer [OF b] tk jwt_decode_cases using a by simp
next
  assume "get_current_user load cfg now users authorization
            = Inl (HTTPException 401 ''Token expired'')"
  then show "startswith authorization ''Bearer ''
        \<and> (\<exists>t e. load (takeWhile (\<lambda>x. x \<noteq> CHR '' '') (drop 7 authorization)) = Some t
              \<and> alg t = jwt_algorithm cfg \<and> signing_key t = jwt_secret cfg
              \<and> exp (payload t) = Some e \<and> e \<le> now)"
    by (rule expired_reason_only_for_expired)
qed

theorem expired_token_rejected_with_own_reason_witness:
  "''Bearer tok0'' = ''Bearer '' @ ''tok0'' \<and> CHR '' '' \<notin> set ''tok0''
   \<and> load0 ''tok0'' = Some jwt0
   \<and> exp (payload jwt0) = Some 3610 \<and> (3610::int) \<le> 4000
   \<and> alg jwt0 = jwt_algorithm cfg0 \<and> signing_key jwt0 = jwt_secret cfg0
   \<and> get_current_user load0 cfg0 4000 [usr0] ''Bearer tok0''
       = Inl (HTTPException 401 ''Token expired'')
   \<and> get_current_user load0 (cfg0\<lparr>jwt_secret := ''other''\<rparr>) 4000 [usr0] ''Bearer tok0''
       = Inl (HTTPException 401 ''Invalid token'')
   \<and> startswith ''Bearer tok0'' ''Bearer ''"
  using expired_token_rejected_with_own_reason
      [where authorization = "''Bearer tok0''" and tok = "''tok0''" and load = load0
        and t = jwt0 and e = 3610 and now = 4000 and cfg = cfg0 and users = "[usr0]"]
    expired_token_rejected_with_own_reason
      [where authorization = "''Bearer tok0''" and tok = "''tok0''" and load = load0
        and t = jwt0 and e = 3610 and now = 4000 and cfg = "cfg0\<lparr>jwt_secret := ''other''\<rparr>"
        and users = "[usr0]"]
  by (simp add: example_defs jwt0_def load0_def jwt_encode_def startswith_def)

subsection \<open>The user of a valid token\<close>

lemma filter_none: "list_all (\<lambda>u. \<not> P u) xs \<Longrightarrow> filter P xs = []"
  by (induction xs) auto

lemma filter_absent_id:
  "id' u \<notin> id' ` set users \<Longrightarrow> filter (\<lambda>x. id' x = id' u) users = []"
  by (induction users) auto

lemma filter_unique_id:
  "distinct (map id' users) \<Longrightarrow> u \<in> set users \<Longrightarrow> filter (\<lambda>x. id' x = id' u) users = [u]"
proof (induction users)
  case Nil
  then show ?case by simp
next
  case (Cons a users)
  show ?case
  proof (cases "a = u")
    case True
    have "filter (\<lambda>x. id' x = id' u) users = []"
      using Cons.prems(1) True by (simp add: filter_absent_id)
    then show ?thesis using True by simp
  next
    case False
    then have "u \<in> set users" using Cons.prems(2) by simp
    moreover have "id' a \<noteq> id' u"
      using Cons.prems(1) \<open>u \<in> set users\<close> by auto
    ultimately show ?thesis using Cons by simp
  qed
qed

lemma get_or_create_user_distinct_sub:
  "distinct (map oauth_sub users) \<Longrightarrow>
     distinct (map oauth_sub (snd (get_or_create_user new_id now users s)))"
  by (auto simp: get_or_create_user_def Let_def find_None_iff split: option.splits)

lemma token_endpoint_distinct_sub:
  "distinct (map oauth_sub (db s)) \<Longrightarrow>
     distinct (map oauth_sub (db (snd (token_endpoint cfg u t s q))))"
  by (auto simp: token_endpoint_cases get_or_create_user_distinct_sub split: option.splits)

text \<open>
  Claim C7, as the handlers have it. For a bearer token that passes the signature and
  expiry checks, the middleware looks the user up by the token's \<^verbatim>\<open>user_id\<close> claim: it
  answers the row with that id, and when no row has it the request is rejected with
  \<^verbatim>\<open>HTTPException(401, "User not found")\<close>; the middleware creates nothing. Users are
  created by the token exchange, which keeps one row for one subject.
\<close>

theorem valid_token_resolves_user_by_id:
  assumes "authorization = ''Bearer '' @ tok" and "CHR '' '' \<notin> set tok"
    and "load tok = Some t"
    and "alg t = jwt_algorithm cfg" and "signing_key t = jwt_secret cfg"
    and "case exp (payload t) of None \<Rightarrow> True | Some e \<Rightarrow> now < e"
  shows "(list_all (\<lambda>u. Some (id' u) \<noteq> user_id (payload t)) users \<longrightarrow>
            get_current_user load cfg now users authorization
              = Inl (HTTPException 401 ''User not found''))
       \<and> (distinct (map id' users) \<and> usr \<in> set users \<and> user_id (payload t) = Some (id' usr) \<longrightarrow>
            get_current_user load cfg now users authorization = Inr usr)
       \<and> (distinct (map oauth_sub (db s)) \<longrightarrow>
            distinct (map oauth_sub (db (snd (token_endpoint cfg u' t' s q)))))"
proof -
  have b: "startswith authorization ''Bearer ''"
    and tk: "takeWhile (\<lambda>x. x \<noteq> CHR '' '') (drop 7 authorization) = tok"
    using assms(1,2) bearer_token [of tok] by simp_all
  have d: "jwt_decode load tok (jwt_secret cfg) [jwt_algorithm cfg] now = Inr (payload t)"
    using assms(3-6) by (auto simp: jwt_decode_cases split: option.splits)
  have g: "get_current_user load cfg now users authorization =
      (case filter (\<lambda>u. Some (id' u) = user_id (payload t)) users of
         [] \<Rightarrow> Inl (HTTPException 401 ''User not found'')
       | [u] \<Rightarrow> Inr u
       | _ \<Rightarrow> Inl (Unhandled ''MultipleResultsFound''))"
    unfolding get_current_user_bearer [OF b] tk d by simp
  show ?thesis
  proof (intro conjI impI)
    assume "list_all (\<lambda>u. Some (id' u) \<noteq> user_id (payload t)) users"
    then have "filter (\<lambda>u. Some (id' u) = user_id (payload t)) users = []"
      by (rule filter_none)
    then show "get_current_user load cfg now users authorization
              = Inl (HTTPException 401 ''User not found'')"
      by (simp add: g)
  next
    assume a: "distinct (map id' users) \<and> usr \<in> set users \<and> user_id (payload t) = Some (id' usr)"
    then have "filter (\<lambda>x. id' x = id' usr) users = [usr]"
      by (simp add: filter_unique_id)
    then show "get_current_user load cfg now users authorization = Inr usr"
      using a by (simp add: g)
  next
    assume "distinct (map oauth_sub (db s))"
    then show "distinct (map oauth_sub (db (snd (token_endpoint cfg u' t' s q))))"
      by (rule token_endpoint_distinct_sub)
  qed
qed

theorem valid_token_resolves_user_by_id_witness:
  "''Bearer tok0'' = ''Bearer '' @ ''tok0'' \<and> CHR '' '' \<notin> set ''tok0''
   \<and> load0 ''tok0'' = Some jwt0
   \<and> alg jwt0 = jwt_algorithm cfg0 \<and> signing_key jwt0 = jwt_secret cfg0
   \<and> (case exp (payload jwt0) of None \<Rightarrow> True | Some e \<Rightarrow> 100 < e)
   \<and> list_all (\<lambda>u. Some (id' u) \<noteq> user_id (payload jwt0)) []
   \<and> get_current_user load0 cfg0 100 [] ''Bearer tok0'' = Inl (HTTPException 401 ''User not found'')
   \<and> distinct (map id' [usr0]) \<and> usr0 \<in> set [usr0] \<and> user_id (payload jwt0) = Some (id' usr0)
   \<and> get_current_user load0 cfg0 100 [usr0] ''Bearer tok0'' = Inr usr0
   \<and> distinct (map oauth_sub (db s_issued))
   \<and> distinct (map oauth_sub (db (snd (token_endpoint cfg0 ''u1'' 10 s_issued q_token))))"
  using valid_token_resolves_user_by_id
      [where authorization = "''Bearer tok0''" and tok = "''tok0''" and load = load0
        and t = jwt0 and cfg = cfg0 and now = 100 and users = "[]" and s = s_issued
        and u' = "''u1''" and t' = 10 and q = q_token]
    valid_token_resolves_user_by_id
      [where authorization = "''Bearer tok0''" and tok = "''tok0''" and load = load0
        and t = jwt0 and cfg = cfg0 and now = 100 and users = "[usr0]" and usr = usr0
        and s = s_issued and u' = "''u1''" and t' = 10 and q = q_token]
  by (simp add: example_defs jwt0_def load0_def jwt_encode_def authorize_def)

text \<open>
  The access token the exchange issues for \<open>usr0\<close>, unexpired and validly signed, is
  rejected when the table has no row for it: no user is created.
\<close>

theorem valid_token_without_user_row_is_rejected:
  "map_of (token_body cfg0 usr0 10) ''access_token'' = Some (JToken jwt0)
   \<and> load0 ''tok0'' = Some jwt0
   \<and> get_current_user load0 cfg0 100 [] ''Bearer tok0''
       = Inl (HTTPException 401 ''User not found'')"
  by (simp add: example_defs jwt0_def load0_def token_body_def jwt_encode_def middleware_defs)

subsection \<open>Revocation\<close>

text \<open>
  Claim C9, on the handler as the specification describes it: every revocation answers
  200, whatever the store holds for the token and whoever presents it, and revoking a
  token a second time changes nothing more.
\<close>

theorem revoke_idempotent_and_silent:
  "fst (revoke hash store presenter tok) = 200
   \<and> fst (revoke hash store presenter tok) = fst (revoke hash store' presenter' tok')
   \<and> revoke hash (snd (revoke hash store presenter tok)) presenter tok
       = revoke hash store presenter tok"
  by (simp add: revoke_def comp_def cong: if_cong)

lemma revoke_examples:
  "revoke hash0 [rt0] ''client1'' ''r1'' = (200, [rt0\<lparr>revoked := True\<rparr>])"
  "revoke hash0 [rt0\<lparr>revoked := True\<rparr>] ''client1'' ''r1'' = (200, [rt0\<lparr>revoked := True\<rparr>])"
  "revoke hash0 [rt0] ''client1'' ''never-issued'' = (200, [rt0])"
  "revoke hash0 [rt0] ''client2'' ''r1'' = (200, [rt0])"
  by (simp_all add: revoke_def rt0_def hash0_def)

end
